theory Spec2Isabelle
  imports Complex_Main "HOL-Library.Word"
begin

section \<open>PostureCare: the posture corrector of ProyectoIntegrador.c\<close>

text \<open>
  The firmware runs four FreeRTOS tasks over shared globals: \<open>LeerAcelerometro\<close>
  (sampling, smoothing, calibration, deviation angle), \<open>ProcesarPostura\<close> (the timed
  posture classifier), \<open>ActualizarIndicadores\<close> (LEDs and buzzer) and \<open>Bluetooth\<close>
  (telemetry). Each task is an endless loop; one pass through the body of a loop is
  modelled as one function on the state it reads and writes.

  Numbers. In the model of the tasks the C \<open>float\<close>s are idealised as real numbers:
  every arithmetic operation is exact, and the literals \<open>0.8f\<close>, \<open>0.2f\<close>, \<open>12.0f\<close>,
  \<open>180.0f\<close> and \<open>3.14159f\<close> stand for the decimal fractions written in the source. The
  one not-a-number the code can produce from finite readings, the angle of a zero vector
  (\<open>0 / 0\<close>), is kept as \<open>None\<close> in the \<open>angulo\<close> field. Where a property turns on the
  last bit of a result, as the fixed points of the smoothing filter do, the function is
  modelled a second time in single precision, with the rounding of every operation. The
  integers keep their widths: \<open>uint8_t\<close>, \<open>uint16_t\<close>, \<open>uint32_t\<close> and \<open>TickType_t\<close> are
  words that wrap around.
\<close>

subsection \<open>Macros\<close>

definition PERIODO_MUESTREO_AC :: nat where
  "PERIODO_MUESTREO_AC = 1000"

definition UMBRAL_INCLINACION :: real where
  "UMBRAL_INCLINACION = 12"

definition TIEMPO_ADVERTENCIA :: nat where
  "TIEMPO_ADVERTENCIA = 3000"

definition TIEMPO_ALERTA :: nat where
  "TIEMPO_ALERTA = 5000"

definition TIEMPO_CALIBRACION :: nat where
  "TIEMPO_CALIBRACION = 3000"

subsection \<open>Data\<close>

text \<open>\<open>acelerometro_data_t\<close>; \<open>angulo = None\<close> is the float NaN.\<close>

record acelerometro_data_t =
  ax :: real
  ay :: real
  az :: real
  angulo :: "real option"

text \<open>The file-level variables, shared by the four tasks.\<close>

record globals =
  datos_acelerometro :: acelerometro_data_t
  posture_state :: "8 word"
  bad_posture_time :: "32 word"
  base_x :: real
  base_y :: real
  base_z :: real
  calibrado :: bool

text \<open>The initialisers of the source: everything zero, not calibrated.\<close>

definition globals_init :: globals where
  "globals_init =
     \<lparr>datos_acelerometro = \<lparr>ax = 0, ay = 0, az = 0, angulo = Some 0\<rparr>,
      posture_state = 0, bad_posture_time = 0,
      base_x = 0, base_y = 0, base_z = 0, calibrado = False\<rparr>"

subsection \<open>FiltroSuavizado\<close>

text \<open>
  The filter read in exact arithmetic. This is the filter of the sampler's model below,
  where what matters is which values are smoothed, summed and averaged.
\<close>

definition FiltroSuavizado :: "real \<Rightarrow> real \<Rightarrow> real" where
  "FiltroSuavizado nuevo previo = (0.8 * previo) + (0.2 * nuevo)"

text \<open>
  The filter as the machine computes it. A finite single-precision number is an integer
  of magnitude below \<open>2 ^ 24\<close> times a power of two with exponent from -149 to 104; an
  operation delivers the number of that form nearest to the exact result, a tie going
  to the even integer, and an infinity when that number would reach \<open>2 ^ 128\<close>.
  \<open>round_binary32\<close> is that rounding: the integer is counted in units of
  \<open>2 ^ (e - 23)\<close>, where \<open>2 ^ e\<close> is the power of two at or below the magnitude, and
  \<open>e\<close> is not taken below -126 (the subnormal numbers). \<open>None\<close> is a result that is no
  finite number.
\<close>

definition round_half_even :: "real \<Rightarrow> int" where
  "round_half_even y =
     (if y - of_int \<lfloor>y\<rfloor> < 1 / 2 then \<lfloor>y\<rfloor>
      else if y - of_int \<lfloor>y\<rfloor> > 1 / 2 then \<lfloor>y\<rfloor> + 1
      else if even \<lfloor>y\<rfloor> then \<lfloor>y\<rfloor> else \<lfloor>y\<rfloor> + 1)"







subsection \<open>CalcularAnguloDesviacion\<close>

text \<open>
  The angle between the reading and the reference vector, in degrees. When a magnitude
  is zero the source divides zero by zero: the NaN passes both range checks (every
  comparison with NaN is false) and \<open>acosf\<close>, and is returned; that is \<open>None\<close> here.
\<close>

definition CalcularAnguloDesviacion :: "globals \<Rightarrow> real \<Rightarrow> real \<Rightarrow> real \<Rightarrow> real option" where
  "CalcularAnguloDesviacion g x y z =
     (let dot = (x * base_x g) + (y * base_y g) + (z * base_z g);
          mag_base = sqrt (base_x g * base_x g + base_y g * base_y g + base_z g * base_z g);
          mag_actual = sqrt (x * x + y * y + z * z)
      in if mag_base * mag_actual = 0 then None
         else
           (let cos_theta = dot / (mag_base * mag_actual);
                cos_theta = (if cos_theta > 1 then 1 else cos_theta);
                cos_theta = (if cos_theta < - 1 then - 1 else cos_theta)
            in Some (arccos cos_theta * (180 / 3.14159))))"

subsection \<open>LeerAcelerometro\<close>

text \<open>
  \<open>pdMS_TO_TICKS\<close> and the tick rate \<open>configTICK_RATE_HZ\<close> belong to FreeRTOS and its
  configuration, not to the repository: the macro is
  \<open>(ms * configTICK_RATE_HZ) / 1000\<close> in 64-bit unsigned arithmetic, cast to
  \<open>TickType_t\<close>, which is 32 bits wide on this target. The rate \<open>hz\<close> is a parameter of
  everything that uses the macro.
\<close>

definition pdMS_TO_TICKS :: "nat \<Rightarrow> nat \<Rightarrow> nat" where
  "pdMS_TO_TICKS hz ms = (ms * hz) div 1000"

text \<open>The local variables of the task.\<close>

record sampler_locals =
  suma_x :: real
  suma_y :: real
  suma_z :: real
  muestras :: "16 word"
  start_time :: "32 word"

text \<open>
  What one pass of the loop reads from outside: the three driver readings and the value
  of \<open>xTaskGetTickCount ()\<close> in the test of the calibration window.
\<close>

record lectura =
  raw_x :: real
  raw_y :: real
  raw_z :: real
  tick :: "32 word"

text \<open>
  Dividing the sums by a sample count of zero gives an infinity or a NaN in C. The real
  numbers have neither, so that outcome is an error value of the model.
\<close>

datatype error = ZeroSamples

text \<open>The state of the task when it enters the loop at tick \<open>t0\<close>.\<close>

definition LeerAcelerometro_init :: "32 word \<Rightarrow> sampler_locals" where
  "LeerAcelerometro_init t0 =
     \<lparr>suma_x = 0, suma_y = 0, suma_z = 0, muestras = 0, start_time = t0\<rparr>"

text \<open>
  One pass of the loop body, up to the delay. \<open>muestras++\<close> is a 16-bit increment and the
  elapsed time a 32-bit subtraction, both wrapping. The \<open>printf\<close> of the calibration
  message writes to the console only and is left out.
\<close>

definition LeerAcelerometro_iter ::
    "nat \<Rightarrow> lectura \<Rightarrow> sampler_locals \<times> globals \<Rightarrow> error + sampler_locals \<times> globals" where
  "LeerAcelerometro_iter hz inp st =
     (let l = fst st; g = snd st; d = datos_acelerometro g;
          d1 = d\<lparr>ax := FiltroSuavizado (raw_x inp) (ax d),
                 ay := FiltroSuavizado (raw_y inp) (ay d),
                 az := FiltroSuavizado (raw_z inp) (az d)\<rparr>;
          g1 = g\<lparr>datos_acelerometro := d1\<rparr>
      in if \<not> calibrado g1 then
           (let l1 = l\<lparr>suma_x := suma_x l + ax d1,
                        suma_y := suma_y l + ay d1,
                        suma_z := suma_z l + az d1,
                        muestras := muestras l + 1\<rparr>
            in if tick inp - start_time l1 \<ge> of_nat (pdMS_TO_TICKS hz TIEMPO_CALIBRACION) then
                 (if muestras l1 = 0 then Inl ZeroSamples
                  else Inr (l1, g1\<lparr>base_x := suma_x l1 / real (unat (muestras l1)),
                                     base_y := suma_y l1 / real (unat (muestras l1)),
                                     base_z := suma_z l1 / real (unat (muestras l1)),
                                     calibrado := True\<rparr>))
               else Inr (l1, g1))
         else
           Inr (l, g1\<lparr>datos_acelerometro :=
                        d1\<lparr>angulo := CalcularAnguloDesviacion g1 (ax d1) (ay d1) (az d1)\<rparr>\<rparr>))"

text \<open>The loop over a list of inputs, one per pass; it stops at an error.\<close>

fun LeerAcelerometro_run ::
    "nat \<Rightarrow> lectura list \<Rightarrow> sampler_locals \<times> globals \<Rightarrow> error + sampler_locals \<times> globals" where
  "LeerAcelerometro_run hz [] st = Inr st"
| "LeerAcelerometro_run hz (inp # inps) st =
     (case LeerAcelerometro_iter hz inp st of
        Inl e \<Rightarrow> Inl e
      | Inr st' \<Rightarrow> LeerAcelerometro_run hz inps st')"

text \<open>
  The argument of the \<open>vTaskDelay\<close> that ends each pass, in ticks: the source writes
  \<open>1000 / PERIODO_MUESTREO_AC\<close>, an integer division. The classifier passes
  \<open>pdMS_TO_TICKS (PERIODO_MUESTREO_AC)\<close>.
\<close>

definition LeerAcelerometro_delay :: nat where
  "LeerAcelerometro_delay = 1000 div PERIODO_MUESTREO_AC"

definition ProcesarPostura_delay :: "nat \<Rightarrow> nat" where
  "ProcesarPostura_delay hz = pdMS_TO_TICKS hz PERIODO_MUESTREO_AC"

text \<open>
  The scheduler's side of that delay. \<open>vTaskDelay (1)\<close> blocks the task until the tick
  count has moved on, so the pass with index \<open>i\<close> (from 0) reads a tick count at least
  \<open>i\<close> ticks after the start; \<open>ticks_advance i t0 inps\<close> says so for the passes
  \<open>i, i + 1, \<dots>\<close> that read \<open>inps\<close>, with the elapsed time taken as the code takes it.
\<close>

fun ticks_advance :: "nat \<Rightarrow> 32 word \<Rightarrow> lectura list \<Rightarrow> bool" where
  "ticks_advance i t0 [] = True"
| "ticks_advance i t0 (inp # inps) =
     (i \<le> unat (tick inp - t0) \<and> ticks_advance (Suc i) t0 inps)"


subsection \<open>ProcesarPostura\<close>

text \<open>
  One pass of the loop body of \<open>ProcesarPostura\<close>. \<open>fabs (NaN) > 12.0f\<close> is false in C,
  so a NaN angle takes the else branch. The addition to \<open>bad_posture_time\<close> and the two
  comparisons are unsigned 32-bit.
\<close>

definition ProcesarPostura_iter :: "globals \<Rightarrow> globals" where
  "ProcesarPostura_iter g =
     (if calibrado g then
        (if (case angulo (datos_acelerometro g) of
               None \<Rightarrow> False
             | Some a \<Rightarrow> \<bar>a\<bar> > UMBRAL_INCLINACION)
         then
           (let g1 = g\<lparr>bad_posture_time := bad_posture_time g + of_nat PERIODO_MUESTREO_AC\<rparr>
            in if bad_posture_time g1 \<ge> of_nat TIEMPO_ALERTA
               then g1\<lparr>posture_state := 2\<rparr>
               else if bad_posture_time g1 \<ge> of_nat TIEMPO_ADVERTENCIA
               then g1\<lparr>posture_state := 1\<rparr>
               else g1)
         else g\<lparr>bad_posture_time := 0, posture_state := 0\<rparr>)
      else g)"

text \<open>
  An evaluation tick that finds the angle \<open>a\<close> in the shared reading: the sampler has
  stored \<open>a\<close> since the last tick, then the classifier runs once.
\<close>

definition evaluation_tick :: "globals \<Rightarrow> real \<Rightarrow> globals" where
  "evaluation_tick g a =
     ProcesarPostura_iter
       (g\<lparr>datos_acelerometro := (datos_acelerometro g)\<lparr>angulo := Some a\<rparr>\<rparr>)"

text \<open>The states after each of a list of evaluation ticks, in order.\<close>

fun ProcesarPostura_trace :: "globals \<Rightarrow> real list \<Rightarrow> globals list" where
  "ProcesarPostura_trace g [] = []"
| "ProcesarPostura_trace g (a # as) =
     (let g' = evaluation_tick g a in g' # ProcesarPostura_trace g' as)"

text \<open>
  The relation between the posture state and the accumulated time that the two time
  thresholds stand for.
\<close>

definition posture_invariant :: "globals \<Rightarrow> bool" where
  "posture_invariant g =
     ((posture_state g = 0) = (bad_posture_time g < 3000) \<and>
      (posture_state g = 1) = (3000 \<le> bad_posture_time g \<and> bad_posture_time g < 5000) \<and>
      (posture_state g = 2) = (5000 \<le> bad_posture_time g))"

text \<open>The shared state right after calibration: posture correct, no time accumulated.\<close>

definition calibrated_start :: globals where
  "calibrated_start = globals_init\<lparr>calibrado := True\<rparr>"

text \<open>\<open>n\<close> evaluation ticks in a row that all find an angle of 13 degrees.\<close>

definition sustained :: "nat \<Rightarrow> real list" where
  "sustained n = replicate n 13"

subsection \<open>ActualizarIndicadores\<close>

text \<open>The calls to the LED and buzzer drivers that one pass of the loop makes.\<close>

datatype led_t = LED_1 | LED_2 | LED_3

datatype driver_call = LedOn led_t | LedOff led_t | BuzzerOn | BuzzerOff

definition ActualizarIndicadores_iter :: "8 word \<Rightarrow> driver_call list" where
  "ActualizarIndicadores_iter s =
     (if s = 0 then [LedOn LED_1, LedOff LED_2, LedOff LED_3, BuzzerOff]
      else if s = 1 then [LedOff LED_1, LedOn LED_2, LedOff LED_3, BuzzerOff]
      else if s = 2 then [LedOff LED_1, LedOff LED_2, LedOn LED_3, BuzzerOn]
      else [])"

subsection \<open>Bluetooth\<close>

text \<open>
  The conversion \<open>%.2f\<close> of the C library (not part of the repository): the sign, the
  integer part in decimal, a point and two decimals, the value rounded to the nearest
  hundredth, a tie to the even one (\<open>round_half_even\<close> above). A NaN prints as \<open>nan\<close>.
\<close>

definition digit_char :: "nat \<Rightarrow> char" where
  "digit_char d = ''0123456789'' ! d"

fun decimal :: "nat \<Rightarrow> string" where
  "decimal n = (if n < 10 then [digit_char n] else decimal (n div 10) @ [digit_char (n mod 10)])"

declare decimal.simps [simp del]

definition printf_2f :: "real option \<Rightarrow> string" where
  "printf_2f v =
     (case v of
        None \<Rightarrow> ''nan''
      | Some x \<Rightarrow>
          (let n = nat (round_half_even (\<bar>x\<bar> * 100))
           in (if x < 0 then ''-'' else []) @ decimal (n div 100) @ ''.'' @
              [digit_char (n mod 100 div 10), digit_char (n mod 10)]))"

text \<open>The label chosen by the \<open>switch\<close> on \<open>posture_state\<close>.\<close>

definition estado_texto :: "8 word \<Rightarrow> string" where
  "estado_texto s =
     (if s = 0 then ''Correcta''
      else if s = 1 then ''Incorrecta-Advertencia''
      else if s = 2 then ''Incorrecta-Alerta''
      else ''Desconocido'')"

text \<open>
  The string that one pass hands to \<open>BleSendString\<close>: \<open>snprintf\<close> into a buffer of 124
  bytes keeps at most 123 characters.
\<close>

definition Bluetooth_iter :: "globals \<Rightarrow> string" where
  "Bluetooth_iter g =
     take 123
       (''*X'' @ printf_2f (Some (ax (datos_acelerometro g))) @ ''g'' @ [CHR 0x0A] @
        ''*Y'' @ printf_2f (Some (ay (datos_acelerometro g))) @ ''g'' @ [CHR 0x0A] @
        ''*Z'' @ printf_2f (Some (az (datos_acelerometro g))) @ ''g'' @ [CHR 0x0A] @
        ''*A'' @ printf_2f (angulo (datos_acelerometro g)) @ [CHR 0x0A] @
        ''*E'' @ estado_texto (posture_state g) @ [CHR 0x0A])"

subsection \<open>The four tasks together\<close>

text \<open>
  \<open>app_main\<close> creates the four tasks and the scheduler interleaves them. A state of the
  whole program is the sampler's locals, the shared globals, and what has gone out to
  the drivers and to Bluetooth so far. A step is one pass of one task.
\<close>

record system =
  sampler :: sampler_locals
  shared :: globals
  driver_calls :: "driver_call list"
  ble_sent :: "string list"

inductive reachable :: "nat \<Rightarrow> system \<Rightarrow> bool" for hz :: nat where
  start:
    "reachable hz \<lparr>sampler = LeerAcelerometro_init t0, shared = globals_init,
                   driver_calls = [], ble_sent = []\<rparr>"
| sample:
    "reachable hz s \<Longrightarrow>
     LeerAcelerometro_iter hz inp (sampler s, shared s) = Inr (l, g) \<Longrightarrow>
     reachable hz (s\<lparr>sampler := l, shared := g\<rparr>)"
| classify:
    "reachable hz s \<Longrightarrow> reachable hz (s\<lparr>shared := ProcesarPostura_iter (shared s)\<rparr>)"
| indicate:
    "reachable hz s \<Longrightarrow>
     reachable hz
       (s\<lparr>driver_calls := driver_calls s @ ActualizarIndicadores_iter (posture_state (shared s))\<rparr>)"
| send:
    "reachable hz s \<Longrightarrow> reachable hz (s\<lparr>ble_sent := ble_sent s @ [Bluetooth_iter (shared s)]\<rparr>)"

subsection \<open>Auxiliary notions\<close>

text \<open>The calibration window in ticks, as the loop compares it.\<close>

abbreviation (input) cal_ticks :: "nat \<Rightarrow> 32 word" where
  "cal_ticks hz \<equiv> of_nat (pdMS_TO_TICKS hz TIEMPO_CALIBRACION)"

text \<open>
  What holds of the sampler before pass \<open>i\<close>: while it calibrates, the counter holds
  \<open>i\<close> and the window has not been outrun; afterwards the counter it divided by stays.
\<close>

definition sampler_inv :: "nat \<Rightarrow> nat \<Rightarrow> sampler_locals \<times> globals \<Rightarrow> bool" where
  "sampler_inv hz i st =
     (if calibrado (snd st) then muestras (fst st) \<noteq> 0
      else unat (muestras (fst st)) = i \<and> i \<le> pdMS_TO_TICKS hz TIEMPO_CALIBRACION)"

text \<open>The terms of the power series of the arc tangent, for a lower bound on \<open>pi\<close>.\<close>

definition arctan_term :: "real \<Rightarrow> nat \<Rightarrow> real" where
  "arctan_term x k = 1 / real (k * 2 + 1) * x ^ (k * 2 + 1)"

subsection \<open>Concrete scenarios\<close>

text \<open>
  Four passes of the sampler at a tick rate of 1 Hz (a window of 3 ticks), the device
  at rest with gravity along z; the task started at tick 10.
\<close>

definition four_passes :: "lectura list" where
  "four_passes =
     [\<lparr>raw_x = 0, raw_y = 0, raw_z = 1, tick = 10\<rparr>,
      \<lparr>raw_x = 0, raw_y = 0, raw_z = 1, tick = 11\<rparr>,
      \<lparr>raw_x = 0, raw_y = 0, raw_z = 1, tick = 12\<rparr>,
      \<lparr>raw_x = 0, raw_y = 0, raw_z = 1, tick = 13\<rparr>]"

text \<open>Calibrated with the reference vector (0, 0, 1).\<close>

definition reference_z :: globals where
  "reference_z = globals_init\<lparr>base_x := 0, base_y := 0, base_z := 1, calibrado := True\<rparr>"

text \<open>
  4294968 evaluation ticks of bad posture in a row, one per second: a little under
  fifty days. Three more such ticks follow in the second scenario.
\<close>

definition fifty_days :: "real list" where
  "fifty_days = sustained 4294968"

definition fifty_days_and_3s :: "real list" where
  "fifty_days_and_3s = fifty_days @ [13, 13, 13]"

text \<open>
  A fifth pass of the sampler, after the four above have calibrated it: the device
  turned so that the smoothed reading, (0.2, 0, 0), is at a right angle to the reference
  vector (0, 0, 0.4096). The sampler's locals and the shared state after that pass, and
  the program after five passes of the classifier, one of the indicator task and one of
  the telemetry task have followed.
\<close>

definition tilt_pass :: lectura where
  "tilt_pass = \<lparr>raw_x = 1, raw_y = 0, raw_z = - 2.3616, tick = 14\<rparr>"

definition alert_locals :: sampler_locals where
  "alert_locals = \<lparr>suma_x = 0, suma_y = 0, suma_z = 1.6384, muestras = 4, start_time = 10\<rparr>"

definition tilted_globals :: globals where
  "tilted_globals =
     \<lparr>datos_acelerometro =
        \<lparr>ax = 0.2, ay = 0, az = 0, angulo = Some (pi / 2 * (180 / 3.14159))\<rparr>,
      posture_state = 0, bad_posture_time = 0,
      base_x = 0, base_y = 0, base_z = 0.4096, calibrado = True\<rparr>"

definition alert_scene :: system where
  "alert_scene =
     \<lparr>sampler = alert_locals,
      shared = tilted_globals\<lparr>bad_posture_time := 5000, posture_state := 2\<rparr>,
      driver_calls = [LedOff LED_1, LedOff LED_2, LedOn LED_3, BuzzerOn],
      ble_sent =
        [Bluetooth_iter (tilted_globals\<lparr>bad_posture_time := 5000, posture_state := 2\<rparr>)]\<rparr>"

text \<open>A calibrated state whose angle is exactly the threshold, two seconds into bad posture.\<close>

definition at_threshold :: globals where
  "at_threshold =
     globals_init\<lparr>datos_acelerometro := \<lparr>ax = 0, ay = 0, az = 1, angulo = Some 12\<rparr>,
                  bad_posture_time := 2000, calibrado := True\<rparr>"

section \<open>Theorems\<close>

subsection \<open>The smoothing filter\<close>

text \<open>
  In exact arithmetic every number is a fixed point of the filter. The single-precision
  function, which is what runs, differs: see below.
\<close>

lemma FiltroSuavizado_exact_fixed_point: "FiltroSuavizado c c = c"
  by (simp add: FiltroSuavizado_def)








subsection \<open>The classifier, one tick at a time\<close>

lemma evaluation_tick_over:
  assumes "calibrado g" and "\<bar>a\<bar> > UMBRAL_INCLINACION"
  shows "calibrado (evaluation_tick g a)"
    and "bad_posture_time (evaluation_tick g a) = bad_posture_time g + 1000"
    and "posture_state (evaluation_tick g a) =
          (if 5000 \<le> bad_posture_time g + 1000 then 2
           else if 3000 \<le> bad_posture_time g + 1000 then 1 else posture_state g)"
  using assms
  by (simp_all add: evaluation_tick_def ProcesarPostura_iter_def Let_def
       PERIODO_MUESTREO_AC_def TIEMPO_ALERTA_def TIEMPO_ADVERTENCIA_def)

lemma evaluation_tick_under:
  assumes "calibrado g" and "\<bar>a\<bar> \<le> UMBRAL_INCLINACION"
  shows "calibrado (evaluation_tick g a)"
    and "bad_posture_time (evaluation_tick g a) = 0"
    and "posture_state (evaluation_tick g a) = 0"
  using assms
  by (simp_all add: evaluation_tick_def ProcesarPostura_iter_def)

lemma five_elements: "length xs = 5 \<Longrightarrow> \<exists>a b c d e. xs = [a, b, c, d, e]"
  by (auto simp: length_Suc_conv eval_nat_numeral)

text \<open>
  C1. From a calibrated state with posture Correct (0) and no accumulated time, five
  evaluation ticks in a row whose angle is over the threshold leave the states
  Correct, Correct, Warning, Warning, Alert (0, 0, 1, 1, 2) with 1000 to 5000 ms
  accumulated, and a following tick whose angle is at or under the threshold sets the
  state to Correct and the time to 0.
\<close>

theorem five_over_then_one_under:
  assumes "calibrado g" and "posture_state g = 0" and "bad_posture_time g = 0"
    and "length as = 5" and "\<forall>a \<in> set as. \<bar>a\<bar> > UMBRAL_INCLINACION"
    and "\<bar>b\<bar> \<le> UMBRAL_INCLINACION"
  shows "map posture_state (ProcesarPostura_trace g (as @ [b])) = [0, 0, 1, 1, 2, 0] \<and>
         map bad_posture_time (ProcesarPostura_trace g (as @ [b])) =
           [1000, 2000, 3000, 4000, 5000, 0]"
proof -
  obtain a1 a2 a3 a4 a5 where as: "as = [a1, a2, a3, a4, a5]"
    using five_elements [OF assms(4)] by blast
  show ?thesis
    using assms unfolding as
    by (simp add: evaluation_tick_over evaluation_tick_under Let_def)
qed

theorem five_over_then_one_under_witness:
  "calibrado calibrated_start \<and> posture_state calibrated_start = 0 \<and>
   bad_posture_time calibrated_start = 0 \<and> length [13, 14, - 15, 20, 30 :: real] = 5 \<and>
   \<bar>12\<bar> \<le> UMBRAL_INCLINACION \<and>
   map posture_state (ProcesarPostura_trace calibrated_start ([13, 14, - 15, 20, 30] @ [12]))
     = [0, 0, 1, 1, 2, 0] \<and>
   map bad_posture_time (ProcesarPostura_trace calibrated_start ([13, 14, - 15, 20, 30] @ [12]))
     = [1000, 2000, 3000, 4000, 5000, 0]"
proof -
  have h1: "calibrado calibrated_start"
    and h2: "posture_state calibrated_start = 0"
    and h3: "bad_posture_time calibrated_start = 0"
    by (simp_all add: calibrated_start_def globals_init_def)
  have h4: "length [13, 14, - 15, 20, 30 :: real] = 5" by simp
  have h5: "\<forall>a \<in> set [13, 14, - 15, 20, 30]. \<bar>a\<bar> > UMBRAL_INCLINACION"
    by (simp add: UMBRAL_INCLINACION_def)
  have h6: "\<bar>12\<bar> \<le> UMBRAL_INCLINACION"
    by (simp add: UMBRAL_INCLINACION_def)
  from five_over_then_one_under [OF h1 h2 h3 h4 h5 h6] h1 h2 h3 h4 h6
  show ?thesis by blast
qed

text \<open>
  C7. In a calibrated state whose angle is exactly the threshold of 12 degrees, a pass
  of the classifier does not add to the bad-posture time: the comparison is strict, so
  the time is set to 0 and the state to Correct (0), whatever they were.
\<close>

theorem tick_at_threshold:
  assumes "calibrado g" and "angulo (datos_acelerometro g) = Some 12"
  shows "bad_posture_time (ProcesarPostura_iter g) = 0 \<and>
         posture_state (ProcesarPostura_iter g) = 0"
  using assms by (simp add: ProcesarPostura_iter_def UMBRAL_INCLINACION_def)

theorem tick_at_threshold_witness:
  "calibrado at_threshold \<and> angulo (datos_acelerometro at_threshold) = Some 12 \<and>
   bad_posture_time at_threshold = 2000 \<and>
   bad_posture_time (ProcesarPostura_iter at_threshold) = 0 \<and>
   posture_state (ProcesarPostura_iter at_threshold) = 0"
proof -
  have h1: "calibrado at_threshold"
    and h2: "angulo (datos_acelerometro at_threshold) = Some 12"
    and h3: "bad_posture_time at_threshold = 2000"
    by (simp_all add: at_threshold_def globals_init_def)
  from tick_at_threshold [OF h1 h2] h1 h2 h3 show ?thesis by blast
qed

subsection \<open>The classifier over long runs\<close>

lemma unat_ms: "n \<le> 4294967 \<Longrightarrow> unat (word_of_nat (1000 * n) :: 32 word) = 1000 * n"
  by (subst unat_of_nat) simp

lemma sustained_Suc: "sustained (Suc n) = sustained n @ [13]"
  by (simp add: sustained_def replicate_append_same)

lemma over_13: "\<bar>13::real\<bar> > UMBRAL_INCLINACION"
  by (simp add: UMBRAL_INCLINACION_def)

text \<open>
  While the 32-bit counter has not overflowed, \<open>n\<close> ticks of bad posture accumulate
  \<open>1000 * n\<close> ms, and the state is Alert from the fifth on.
\<close>

lemma sustained_bad_posture:
  "n \<le> 4294967 \<Longrightarrow>
     calibrado (foldl evaluation_tick calibrated_start (sustained n)) \<and>
     bad_posture_time (foldl evaluation_tick calibrated_start (sustained n)) = of_nat (1000 * n) \<and>
     (5 \<le> n \<longrightarrow> posture_state (foldl evaluation_tick calibrated_start (sustained n)) = 2)"
proof (induction n)
  case 0
  show ?case by (simp add: sustained_def calibrated_start_def globals_init_def)
next
  case (Suc n)
  let ?g = "foldl evaluation_tick calibrated_start (sustained n)"
  have n: "n \<le> 4294967" and sn: "Suc n \<le> 4294967"
    using Suc.prems by simp_all
  have cal: "calibrado ?g"
    and t: "bad_posture_time ?g = of_nat (1000 * n)"
    and st: "5 \<le> n \<longrightarrow> posture_state ?g = 2"
    using Suc.IH [OF n] by blast+
  have step: "foldl evaluation_tick calibrated_start (sustained (Suc n)) = evaluation_tick ?g 13"
    by (simp add: sustained_Suc)
  have t': "bad_posture_time ?g + 1000 = of_nat (1000 * Suc n)"
    by (simp add: t)
  have u: "unat (bad_posture_time ?g + 1000) = 1000 * Suc n"
    unfolding t' by (rule unat_ms [OF sn])
  have ge: "(5000 \<le> bad_posture_time ?g + 1000) = (5 \<le> Suc n)"
    unfolding word_le_nat_alt u by simp
  have "calibrado (evaluation_tick ?g 13)"
    by (rule evaluation_tick_over(1) [OF cal over_13])
  moreover have "bad_posture_time (evaluation_tick ?g 13) = of_nat (1000 * Suc n)"
    unfolding evaluation_tick_over(2) [OF cal over_13] by (rule t')
  moreover have "5 \<le> Suc n \<longrightarrow> posture_state (evaluation_tick ?g 13) = 2"
    unfolding evaluation_tick_over(3) [OF cal over_13] ge by simp
  ultimately show ?case unfolding step by blast
qed

lemma fifty_days_last: "fifty_days = sustained 4294967 @ [13]"
proof -
  have "(4294968::nat) = Suc 4294967" by simp
  then have "fifty_days = sustained (Suc 4294967)"
    unfolding fifty_days_def by (rule arg_cong)
  then show ?thesis by (simp only: sustained_Suc)
qed

lemma fifty_days_state:
  "calibrado (foldl evaluation_tick calibrated_start fifty_days)"
  "bad_posture_time (foldl evaluation_tick calibrated_start fifty_days) = 704"
  "posture_state (foldl evaluation_tick calibrated_start fifty_days) = 2"
proof -
  let ?g = "foldl evaluation_tick calibrated_start (sustained 4294967)"
  have h: "calibrado ?g" "bad_posture_time ?g = of_nat (1000 * 4294967)" "posture_state ?g = 2"
    using sustained_bad_posture [of 4294967] by simp_all
  have step: "foldl evaluation_tick calibrated_start fifty_days = evaluation_tick ?g 13"
    unfolding fifty_days_last by simp
  show "calibrado (foldl evaluation_tick calibrated_start fifty_days)"
    unfolding step by (rule evaluation_tick_over(1) [OF h(1) over_13])
  show "bad_posture_time (foldl evaluation_tick calibrated_start fifty_days) = 704"
    unfolding step by (simp add: evaluation_tick_over [OF h(1) over_13] h(2))
  show "posture_state (foldl evaluation_tick calibrated_start fifty_days) = 2"
    unfolding step by (simp add: evaluation_tick_over [OF h(1) over_13] h(2) h(3))
qed

text \<open>
  C9. The relation between state and time (Correct exactly below 3000 ms, Warning
  exactly from 3000 to below 5000 ms, Alert exactly from 5000 ms) does not hold after
  every tick: \<open>bad_posture_time\<close> is a 32-bit counter that grows by 1000 with no upper
  limit. After 4294968 ticks of bad posture in a row it has wrapped around to 704 while
  the state is still Alert, and three ticks later, at 3704, the classifier sets the
  state to Warning although the posture has been bad throughout.
\<close>

theorem classifier_time_wraps:
  "bad_posture_time (foldl evaluation_tick calibrated_start fifty_days) = 704 \<and>
   posture_state (foldl evaluation_tick calibrated_start fifty_days) = 2 \<and>
   \<not> posture_invariant (foldl evaluation_tick calibrated_start fifty_days) \<and>
   bad_posture_time (foldl evaluation_tick calibrated_start fifty_days_and_3s) = 3704 \<and>
   posture_state (foldl evaluation_tick calibrated_start fifty_days_and_3s) = 1"
proof -
  let ?g = "foldl evaluation_tick calibrated_start fifty_days"
  let ?g1 = "evaluation_tick ?g 13"
  let ?g2 = "evaluation_tick ?g1 13"
  let ?g3 = "evaluation_tick ?g2 13"
  note g = fifty_days_state
  have g1: "calibrado ?g1" "bad_posture_time ?g1 = 1704" "posture_state ?g1 = 2"
    by (simp_all add: evaluation_tick_over [OF g(1) over_13] g)
  have g2: "calibrado ?g2" "bad_posture_time ?g2 = 2704" "posture_state ?g2 = 2"
    by (simp_all add: evaluation_tick_over [OF g1(1) over_13] g1)
  have g3: "bad_posture_time ?g3 = 3704" "posture_state ?g3 = 1"
    by (simp_all add: evaluation_tick_over [OF g2(1) over_13] g2)
  have "foldl evaluation_tick calibrated_start fifty_days_and_3s = ?g3"
    by (simp add: fifty_days_and_3s_def)
  with g3 have "bad_posture_time (foldl evaluation_tick calibrated_start fifty_days_and_3s) = 3704"
    and "posture_state (foldl evaluation_tick calibrated_start fifty_days_and_3s) = 1"
    by simp_all
  moreover have "\<not> posture_invariant ?g"
    by (simp add: posture_invariant_def g)
  ultimately show ?thesis using g by blast
qed

text \<open>
  Up to that overflow the relation does hold: after any list of at most 4294967 ticks,
  whatever the angles.
\<close>

lemma invariant_step:
  assumes cal: "calibrado g" and inv: "posture_invariant g"
    and room: "unat (bad_posture_time g) \<le> 1000 * n" and n: "n < 4294967"
  shows "calibrado (evaluation_tick g a) \<and> posture_invariant (evaluation_tick g a) \<and>
         unat (bad_posture_time (evaluation_tick g a)) \<le> 1000 * Suc n"
proof (cases "\<bar>a\<bar> > UMBRAL_INCLINACION")
  case True
  have u: "unat (bad_posture_time g + 1000) = unat (bad_posture_time g) + 1000"
    using room n by (simp add: unat_word_ariths)
  have c5: "(5000 \<le> bad_posture_time g + 1000) = (5000 \<le> unat (bad_posture_time g) + 1000)"
    unfolding word_le_nat_alt u by simp
  have c3: "(3000 \<le> bad_posture_time g + 1000) = (3000 \<le> unat (bad_posture_time g) + 1000)"
    unfolding word_le_nat_alt u by simp
  have l5: "(bad_posture_time g + 1000 < 5000) = (unat (bad_posture_time g) + 1000 < 5000)"
    unfolding word_less_nat_alt u by simp
  have l3: "(bad_posture_time g + 1000 < 3000) = (unat (bad_posture_time g) + 1000 < 3000)"
    unfolding word_less_nat_alt u by simp
  have old: "unat (bad_posture_time g) < 3000 \<Longrightarrow> posture_state g = 0"
    using inv unfolding posture_invariant_def word_less_nat_alt by simp
  show ?thesis
    using room old
    by (auto simp: evaluation_tick_over [OF cal True] posture_invariant_def c5 c3 l5 l3 u)
next
  case False
  then have "\<bar>a\<bar> \<le> UMBRAL_INCLINACION" by simp
  from evaluation_tick_under [OF cal this] show ?thesis
    by (simp add: posture_invariant_def)
qed

lemma invariant_before_wrap:
  "length as \<le> 4294967 \<Longrightarrow>
     calibrado (foldl evaluation_tick calibrated_start as) \<and>
     posture_invariant (foldl evaluation_tick calibrated_start as) \<and>
     unat (bad_posture_time (foldl evaluation_tick calibrated_start as)) \<le> 1000 * length as"
proof (induction as rule: rev_induct)
  case Nil
  show ?case by (simp add: calibrated_start_def globals_init_def posture_invariant_def)
next
  case (snoc a as)
  then have n: "length as < 4294967" by simp
  with snoc.IH have h: "calibrado (foldl evaluation_tick calibrated_start as)"
      "posture_invariant (foldl evaluation_tick calibrated_start as)"
      "unat (bad_posture_time (foldl evaluation_tick calibrated_start as)) \<le> 1000 * length as"
    by simp_all
  from invariant_step [OF h n, of a] show ?case by simp
qed

subsection \<open>The deviation angle\<close>

lemma arctan_term_decreasing:
  assumes "0 \<le> x" and "x \<le> 1"
  shows "arctan_term x (Suc k) \<le> arctan_term x k"
proof -
  have "x ^ (Suc k * 2 + 1) \<le> x ^ (k * 2 + 1)"
    using assms by (intro power_decreasing) simp_all
  moreover have "1 / real (Suc k * 2 + 1) \<le> 1 / real (k * 2 + 1)"
    by (simp add: field_simps)
  moreover have "0 \<le> x ^ (Suc k * 2 + 1)"
    using assms by simp
  ultimately show ?thesis
    unfolding arctan_term_def by (intro mult_mono) simp_all
qed

lemma arctan_between_partial_sums:
  assumes "0 \<le> x" and "x \<le> 1"
  shows "(\<Sum>k<2 * n. (- 1) ^ k * arctan_term x k) \<le> arctan x"
    and "arctan x \<le> (\<Sum>k<2 * n + 1. (- 1) ^ k * arctan_term x k)"
proof -
  have lim: "arctan_term x \<longlonglongrightarrow> 0"
    unfolding arctan_term_def using assms by (intro zeroseq_arctan_series) simp
  have pos: "0 \<le> arctan_term x k" for k
    using assms by (simp add: arctan_term_def)
  have dec: "arctan_term x (Suc k) \<le> arctan_term x k" for k
    using assms by (rule arctan_term_decreasing)
  have series: "arctan x = (\<Sum>k. (- 1) ^ k * arctan_term x k)"
    unfolding arctan_term_def using assms by (intro arctan_series) simp
  show "(\<Sum>k<2 * n. (- 1) ^ k * arctan_term x k) \<le> arctan x"
    unfolding series by (rule summable_Leibniz'(2) [OF lim pos dec])
  show "arctan x \<le> (\<Sum>k<2 * n + 1. (- 1) ^ k * arctan_term x k)"
    unfolding series by (rule summable_Leibniz'(4) [OF lim pos dec])
qed

text \<open>The constant that the source divides by is smaller than \<open>pi\<close>.\<close>

lemma pi_gt_314159: "3.14159 < pi"
proof -
  have lower: "1/5 - 1/375 + 1/15625 - 1/546875 \<le> arctan (1/5)"
    using arctan_between_partial_sums(1) [of "1/5" 2]
    by (simp add: arctan_term_def eval_nat_numeral)
  have upper: "arctan (1/239) \<le> 1/239"
    using arctan_between_partial_sums(2) [of "1/239" 0]
    by (simp add: arctan_term_def)
  have "pi = 16 * arctan (1/5) - 4 * arctan (1/239)"
    using machin by simp
  with lower upper show ?thesis by simp
qed

text \<open>
  In exact arithmetic, for two vectors of non-zero magnitude, the angle is a number
  between 0 and \<open>pi * (180 / 3.14159)\<close>, which is a little more than 180. (The rounding of
  the single-precision operations, which this lemma and the next leave out, can move a
  result by some units in its last place.)
\<close>

lemma CalcularAnguloDesviacion_range:
  assumes "sqrt (base_x g * base_x g + base_y g * base_y g + base_z g * base_z g) \<noteq> 0"
    and "sqrt (x * x + y * y + z * z) \<noteq> 0"
  shows "\<exists>a. CalcularAnguloDesviacion g x y z = Some a \<and> 0 \<le> a \<and> a \<le> pi * (180 / 3.14159)"
proof -
  define c where "c = ((x * base_x g) + (y * base_y g) + (z * base_z g)) /
    (sqrt (base_x g * base_x g + base_y g * base_y g + base_z g * base_z g)
      * sqrt (x * x + y * y + z * z))"
  define c' where "c' = (if (if c > 1 then 1 else c) < - 1 then - 1 else (if c > 1 then 1 else c))"
  have eq: "CalcularAnguloDesviacion g x y z = Some (arccos c' * (180 / 3.14159))"
    using assms by (simp add: CalcularAnguloDesviacion_def Let_def c_def c'_def)
  have "- 1 \<le> c'" and "c' \<le> 1"
    by (simp_all add: c'_def)
  then have "0 \<le> arccos c'" and "arccos c' \<le> pi"
    by (simp_all add: arccos_lbound arccos_ubound)
  then have "0 \<le> arccos c' * (180 / 3.14159)"
    and "arccos c' * (180 / 3.14159) \<le> pi * (180 / 3.14159)"
    by simp_all
  with eq show ?thesis by blast
qed

text \<open>
  In exact arithmetic the upper end is reached by every reading that points exactly
  away from the reference vector, whatever its length.
\<close>

lemma CalcularAnguloDesviacion_opposite:
  assumes k: "0 < k"
    and nz: "base_x g \<noteq> 0 \<or> base_y g \<noteq> 0 \<or> base_z g \<noteq> 0"
  shows "CalcularAnguloDesviacion g (- k * base_x g) (- k * base_y g) (- k * base_z g)
           = Some (pi * (180 / 3.14159))"
proof -
  define s where "s = base_x g * base_x g + base_y g * base_y g + base_z g * base_z g"
  have "0 \<le> s"
    by (simp add: s_def)
  moreover have "s \<noteq> 0"
    using nz by (simp add: s_def add_nonneg_eq_0_iff)
  ultimately have s_pos: "0 < s"
    by simp
  have sq: "sqrt s * sqrt s = s"
    using s_pos by simp
  have mag: "sqrt (- k * base_x g * (- k * base_x g) + - k * base_y g * (- k * base_y g)
               + - k * base_z g * (- k * base_z g)) = k * sqrt s"
  proof -
    have "- k * base_x g * (- k * base_x g) + - k * base_y g * (- k * base_y g)
            + - k * base_z g * (- k * base_z g) = (k * k) * s"
      by (simp add: s_def algebra_simps)
    then show ?thesis
      using k by (simp add: real_sqrt_mult)
  qed
  have dot: "- k * base_x g * base_x g + - k * base_y g * base_y g + - k * base_z g * base_z g
               = - (k * s)"
    by (simp add: s_def algebra_simps)
  have prod: "sqrt s * (k * sqrt s) = k * s"
    using sq by (simp add: mult.assoc mult.left_commute)
  have ne: "k * s \<noteq> 0"
    using k s_pos by simp
  show ?thesis
    unfolding CalcularAnguloDesviacion_def Let_def s_def [symmetric] mag dot prod
    using ne by simp
qed

text \<open>
  C2. The angle does not always lie between 0 and 180 degrees. With the reference
  vector (0, 0, 1) and the reading (0, 0, -1), both of magnitude 1, the cosine is -1,
  its arc cosine is \<open>pi\<close>, and the factor \<open>180 / 3.14159\<close> of the source, whose
  divisor is smaller than \<open>pi\<close>, takes the result above 180.
\<close>

theorem angle_exceeds_180:
  "CalcularAnguloDesviacion reference_z 0 0 (- 1) = Some (pi * (180 / 3.14159)) \<and>
   180 < pi * (180 / 3.14159)"
proof -
  have "CalcularAnguloDesviacion reference_z 0 0 (- 1) = Some (pi * (180 / 3.14159))"
    by (simp add: CalcularAnguloDesviacion_def reference_z_def globals_init_def)
  moreover have "180 < pi * (180 / 3.14159)"
    using pi_gt_314159 by (simp add: field_simps)
  ultimately show ?thesis by blast
qed

subsection \<open>The sampler\<close>

lemma iter_calibrated:
  assumes "calibrado g"
  shows "\<exists>g'. LeerAcelerometro_iter hz inp (l, g) = Inr (l, g') \<and> calibrado g'"
  using assms by (simp add: LeerAcelerometro_iter_def Let_def)

lemma iter_accumulate:
  assumes "\<not> calibrado g" and "\<not> cal_ticks hz \<le> tick inp - start_time l"
  shows "LeerAcelerometro_iter hz inp (l, g) =
     Inr (l\<lparr>suma_x := suma_x l + FiltroSuavizado (raw_x inp) (ax (datos_acelerometro g)),
             suma_y := suma_y l + FiltroSuavizado (raw_y inp) (ay (datos_acelerometro g)),
             suma_z := suma_z l + FiltroSuavizado (raw_z inp) (az (datos_acelerometro g)),
             muestras := muestras l + 1\<rparr>,
          g\<lparr>datos_acelerometro := (datos_acelerometro g)
             \<lparr>ax := FiltroSuavizado (raw_x inp) (ax (datos_acelerometro g)),
              ay := FiltroSuavizado (raw_y inp) (ay (datos_acelerometro g)),
              az := FiltroSuavizado (raw_z inp) (az (datos_acelerometro g))\<rparr>\<rparr>)"
  using assms by (simp add: LeerAcelerometro_iter_def Let_def)

lemma iter_finalise:
  assumes "\<not> calibrado g" and "cal_ticks hz \<le> tick inp - start_time l"
    and "muestras l + 1 \<noteq> 0"
  shows "LeerAcelerometro_iter hz inp (l, g) =
     Inr (l\<lparr>suma_x := suma_x l + FiltroSuavizado (raw_x inp) (ax (datos_acelerometro g)),
             suma_y := suma_y l + FiltroSuavizado (raw_y inp) (ay (datos_acelerometro g)),
             suma_z := suma_z l + FiltroSuavizado (raw_z inp) (az (datos_acelerometro g)),
             muestras := muestras l + 1\<rparr>,
          g\<lparr>datos_acelerometro := (datos_acelerometro g)
             \<lparr>ax := FiltroSuavizado (raw_x inp) (ax (datos_acelerometro g)),
              ay := FiltroSuavizado (raw_y inp) (ay (datos_acelerometro g)),
              az := FiltroSuavizado (raw_z inp) (az (datos_acelerometro g))\<rparr>,
            base_x := (suma_x l + FiltroSuavizado (raw_x inp) (ax (datos_acelerometro g)))
                        / real (unat (muestras l + 1)),
            base_y := (suma_y l + FiltroSuavizado (raw_y inp) (ay (datos_acelerometro g)))
                        / real (unat (muestras l + 1)),
            base_z := (suma_z l + FiltroSuavizado (raw_z inp) (az (datos_acelerometro g)))
                        / real (unat (muestras l + 1)),
            calibrado := True\<rparr>)"
  using assms by (simp add: LeerAcelerometro_iter_def Let_def)

text \<open>The only way to the error: the window elapses when the 16-bit counter wraps to 0.\<close>

lemma iter_zero_samples:
  assumes "\<not> calibrado g" and "cal_ticks hz \<le> tick inp - start_time l"
    and "muestras l + 1 = 0"
  shows "LeerAcelerometro_iter hz inp (l, g) = Inl ZeroSamples"
  using assms by (simp add: LeerAcelerometro_iter_def Let_def)

lemma unat_count_Suc:
  fixes m :: "16 word"
  assumes "unat m < 65535"
  shows "unat (m + 1) = Suc (unat m)" and "m + 1 \<noteq> 0"
proof -
  show u: "unat (m + 1) = Suc (unat m)"
    using assms by (simp add: unat_word_ariths)
  show "m + 1 \<noteq> 0"
  proof
    assume "m + 1 = 0"
    then have "unat (m + 1) = 0" by simp
    with u show False by simp
  qed
qed

lemma run_append:
  "LeerAcelerometro_run hz (xs @ ys) st =
     (case LeerAcelerometro_run hz xs st of
        Inl e \<Rightarrow> Inl e
      | Inr st' \<Rightarrow> LeerAcelerometro_run hz ys st')"
  by (induction xs arbitrary: st) (simp_all split: sum.splits)

lemma run_calibrated:
  "calibrado g \<Longrightarrow>
   \<exists>g'. LeerAcelerometro_run hz inps (l, g) = Inr (l, g') \<and> calibrado g'"
proof (induction inps arbitrary: g)
  case Nil
  then show ?case by simp
next
  case (Cons inp inps)
  from iter_calibrated [OF Cons.prems, of hz inp l]
  obtain g1 where "LeerAcelerometro_iter hz inp (l, g) = Inr (l, g1)" and "calibrado g1"
    by blast
  with Cons.IH [of g1] show ?case by simp
qed

lemma iter_keeps_sampler_inv:
  assumes cal: "pdMS_TO_TICKS hz TIEMPO_CALIBRACION < 65535"
    and adv: "i \<le> unat (tick inp - start_time l)"
    and inv: "sampler_inv hz i (l, g)"
  shows "\<exists>l' g'. LeerAcelerometro_iter hz inp (l, g) = Inr (l', g') \<and>
           start_time l' = start_time l \<and> sampler_inv hz (Suc i) (l', g')"
proof (cases "calibrado g")
  case True
  with iter_calibrated [OF True, of hz inp l] inv show ?thesis
    by (auto simp: sampler_inv_def)
next
  case False
  with inv have m: "unat (muestras l) = i" and i: "i \<le> pdMS_TO_TICKS hz TIEMPO_CALIBRACION"
    by (simp_all add: sampler_inv_def)
  from m i cal have lt: "unat (muestras l) < 65535" by simp
  have ucal: "unat (cal_ticks hz) = pdMS_TO_TICKS hz TIEMPO_CALIBRACION"
    using cal by (simp add: unat_of_nat)
  show ?thesis
  proof (cases "cal_ticks hz \<le> tick inp - start_time l")
    case True
    show ?thesis
      unfolding iter_finalise [OF False True unat_count_Suc(2) [OF lt]]
      using unat_count_Suc(2) [OF lt] by (simp add: sampler_inv_def)
  next
    case late: False
    then have "unat (tick inp - start_time l) < pdMS_TO_TICKS hz TIEMPO_CALIBRACION"
      unfolding word_le_nat_alt ucal by simp
    with adv have "Suc i \<le> pdMS_TO_TICKS hz TIEMPO_CALIBRACION" by simp
    then show ?thesis
      unfolding iter_accumulate [OF False late]
      using False m unat_count_Suc(1) [OF lt] by (simp add: sampler_inv_def)
  qed
qed

lemma run_keeps_sampler_inv:
  assumes "pdMS_TO_TICKS hz TIEMPO_CALIBRACION < 65535"
  shows "ticks_advance i (start_time l) inps \<Longrightarrow> sampler_inv hz i (l, g) \<Longrightarrow>
     \<exists>l' g'. LeerAcelerometro_run hz inps (l, g) = Inr (l', g') \<and>
       sampler_inv hz (i + length inps) (l', g')"
proof (induction inps arbitrary: i l g)
  case Nil
  then show ?case by simp
next
  case (Cons inp inps)
  from Cons.prems have adv1: "i \<le> unat (tick inp - start_time l)"
    and adv2: "ticks_advance (Suc i) (start_time l) inps" by simp_all
  from iter_keeps_sampler_inv [OF assms adv1 Cons.prems(2)]
  obtain l1 g1 where it: "LeerAcelerometro_iter hz inp (l, g) = Inr (l1, g1)"
    and st: "start_time l1 = start_time l" and inv1: "sampler_inv hz (Suc i) (l1, g1)"
    by blast
  from Cons.IH [of "Suc i" l1 g1] adv2 st inv1
  obtain l' g' where "LeerAcelerometro_run hz inps (l1, g1) = Inr (l', g')"
    and "sampler_inv hz (Suc i + length inps) (l', g')" by auto
  with it show ?case by simp
qed

text \<open>
  C3. The sampler never divides the sums by a sample count of zero. The count is
  incremented before the window is tested, so it is zero at the division only if the
  16-bit counter has wrapped around. That needs 65536 passes inside the window, and
  each pass ends in a delay of one tick: when the window (\<open>pdMS_TO_TICKS (3000)\<close>) is
  shorter than 65535 ticks, as at every tick rate up to 21844 Hz, and the tick count
  moves on by at least one tick per pass over the first passes, one more than the
  window has ticks, the loop runs through any list of inputs without the error, and
  once it has calibrated, the count it divided by is at least 1.
\<close>

theorem calibration_never_divides_by_zero:
  assumes "pdMS_TO_TICKS hz TIEMPO_CALIBRACION < 65535"
    and "ticks_advance 0 t0 (take (Suc (pdMS_TO_TICKS hz TIEMPO_CALIBRACION)) inps)"
  shows "\<exists>l g. LeerAcelerometro_run hz inps (LeerAcelerometro_init t0, globals_init) = Inr (l, g) \<and>
           (calibrado g \<longrightarrow> 1 \<le> unat (muestras l))"
proof -
  define n where "n = Suc (pdMS_TO_TICKS hz TIEMPO_CALIBRACION)"
  have "sampler_inv hz 0 (LeerAcelerometro_init t0, globals_init)"
    by (simp add: sampler_inv_def LeerAcelerometro_init_def globals_init_def)
  moreover have "ticks_advance 0 (start_time (LeerAcelerometro_init t0)) (take n inps)"
    using assms(2) by (simp add: LeerAcelerometro_init_def n_def)
  ultimately obtain l1 g1 where
    run1: "LeerAcelerometro_run hz (take n inps) (LeerAcelerometro_init t0, globals_init)
             = Inr (l1, g1)"
    and inv: "sampler_inv hz (0 + length (take n inps)) (l1, g1)"
    using run_keeps_sampler_inv [OF assms(1)] by blast
  have nz: "calibrado g1 \<Longrightarrow> muestras l1 \<noteq> 0"
    using inv by (simp add: sampler_inv_def)
  have pos: "1 \<le> unat (muestras l1)" if "muestras l1 \<noteq> 0"
  proof -
    from that have "unat (muestras l1) \<noteq> 0" by (simp add: unat_eq_zero)
    then show ?thesis by simp
  qed
  show ?thesis
  proof (cases "length inps \<le> n")
    case True
    then have "take n inps = inps" by simp
    with run1 nz pos show ?thesis by auto
  next
    case False
    then have "length (take n inps) = n" by simp
    with inv have g1: "calibrado g1"
      by (auto simp: sampler_inv_def n_def split: if_splits)
    from run_calibrated [OF g1, of hz "drop n inps" l1]
    obtain g' where "LeerAcelerometro_run hz (drop n inps) (l1, g1) = Inr (l1, g')"
      by blast
    with run1 run_append [of hz "take n inps" "drop n inps"
        "(LeerAcelerometro_init t0, globals_init)"]
    have "LeerAcelerometro_run hz inps (LeerAcelerometro_init t0, globals_init) = Inr (l1, g')"
      by simp
    with nz [OF g1] pos show ?thesis by blast
  qed
qed

theorem calibration_never_divides_by_zero_witness:
  "pdMS_TO_TICKS 1 TIEMPO_CALIBRACION < 65535 \<and>
   ticks_advance 0 10 (take (Suc (pdMS_TO_TICKS 1 TIEMPO_CALIBRACION)) four_passes) \<and>
   (\<exists>l g. LeerAcelerometro_run 1 four_passes (LeerAcelerometro_init 10, globals_init) = Inr (l, g) \<and>
           (calibrado g \<longrightarrow> 1 \<le> unat (muestras l)))"
proof -
  have h1: "pdMS_TO_TICKS 1 TIEMPO_CALIBRACION < 65535"
    by (simp add: pdMS_TO_TICKS_def TIEMPO_CALIBRACION_def)
  have h2: "ticks_advance 0 10 (take (Suc (pdMS_TO_TICKS 1 TIEMPO_CALIBRACION)) four_passes)"
    by (simp add: four_passes_def pdMS_TO_TICKS_def TIEMPO_CALIBRACION_def)
  from calibration_never_divides_by_zero [OF h1 h2] h1 h2 show ?thesis by blast
qed






text \<open>
  Where the bound on \<open>N\<close> comes from: while the tick count moves on by at least one
  tick per pass, the pass that completes calibration is at the latest the one after
  as many passes as the window has ticks.
\<close>

lemma ticks_advance_nth:
  "ticks_advance i t0 inps \<Longrightarrow> k < length inps \<Longrightarrow> i + k \<le> unat (tick (inps ! k) - t0)"
proof (induction inps arbitrary: i k)
  case Nil
  then show ?case by simp
next
  case (Cons inp inps)
  then show ?case by (cases k) force+
qed

lemma calibration_within_window:
  assumes cal: "pdMS_TO_TICKS hz TIEMPO_CALIBRACION < 65535"
    and adv: "ticks_advance 0 t0 inps"
    and early: "\<forall>inp \<in> set (butlast inps). \<not> cal_ticks hz \<le> tick inp - t0"
  shows "length inps \<le> pdMS_TO_TICKS hz TIEMPO_CALIBRACION + 1"
proof (cases "length inps < 2")
  case True
  then show ?thesis by simp
next
  case False
  define k where "k = length inps - 2"
  from False have k: "k < length (butlast inps)" "k < length inps" "length inps = k + 2"
    by (simp_all add: k_def)
  have ucal: "unat (cal_ticks hz) = pdMS_TO_TICKS hz TIEMPO_CALIBRACION"
    using cal by (simp add: unat_of_nat)
  have "inps ! k \<in> set (butlast inps)"
    using k(1) by (metis nth_butlast nth_mem)
  with early have "\<not> cal_ticks hz \<le> tick (inps ! k) - t0" by blast
  then have "unat (tick (inps ! k) - t0) < pdMS_TO_TICKS hz TIEMPO_CALIBRACION"
    unfolding word_le_nat_alt ucal by simp
  moreover have "0 + k \<le> unat (tick (inps ! k) - t0)"
    using adv k(2) by (rule ticks_advance_nth)
  ultimately show ?thesis using k(3) by simp
qed

text \<open>
  C4. The sampler does not wait its period of 1000 ms between passes. The argument of
  its \<open>vTaskDelay\<close> is \<open>1000 / PERIODO_MUESTREO_AC\<close>, which is 1 tick, where the
  classifier passes \<open>pdMS_TO_TICKS (PERIODO_MUESTREO_AC)\<close>, the period in ticks: 100
  ticks at 100 Hz. The two agree at a tick rate of 1 Hz only.
\<close>

theorem sampler_delay_one_tick:
  "LeerAcelerometro_delay = 1 \<and> ProcesarPostura_delay 100 = 100 \<and>
   (LeerAcelerometro_delay = ProcesarPostura_delay hz) = (hz = 1)"
  by (auto simp: LeerAcelerometro_delay_def ProcesarPostura_delay_def pdMS_TO_TICKS_def
      PERIODO_MUESTREO_AC_def)

subsection \<open>Telemetry\<close>

text \<open>
  C8. For the reading ax = 1.23, ay = -0.50, az = 9.81, angle = 15.00 and the posture
  state 2 (Alert), one pass of the telemetry task sends the five lines
  \<open>*X1.23g\<close>, \<open>*Y-0.50g\<close>, \<open>*Z9.81g\<close>, \<open>*A15.00\<close> and \<open>*EIncorrecta-Alerta\<close>, each
  ended by a newline. The same holds for the single-precision values nearest to 1.23
  and 9.81, which is what the fields can hold.
\<close>

theorem telemetry_example:
  "Bluetooth_iter
     \<lparr>datos_acelerometro = \<lparr>ax = 1.23, ay = - 0.50, az = 9.81, angulo = Some 15.00\<rparr>,
      posture_state = 2, bad_posture_time = t, base_x = bx, base_y = by, base_z = bz,
      calibrado = c\<rparr>
   = ''*X1.23g'' @ [CHR 0x0A] @ ''*Y-0.50g'' @ [CHR 0x0A] @ ''*Z9.81g'' @ [CHR 0x0A] @
     ''*A15.00'' @ [CHR 0x0A] @ ''*EIncorrecta-Alerta'' @ [CHR 0x0A] \<and>
   Bluetooth_iter
     \<lparr>datos_acelerometro = \<lparr>ax = 2579497 / 2097152, ay = - 1 / 2, az = 10286531 / 1048576,
        angulo = Some 15\<rparr>,
      posture_state = 2, bad_posture_time = t, base_x = bx, base_y = by, base_z = bz,
      calibrado = c\<rparr>
   = ''*X1.23g'' @ [CHR 0x0A] @ ''*Y-0.50g'' @ [CHR 0x0A] @ ''*Z9.81g'' @ [CHR 0x0A] @
     ''*A15.00'' @ [CHR 0x0A] @ ''*EIncorrecta-Alerta'' @ [CHR 0x0A]"
  by (simp add: Bluetooth_iter_def printf_2f_def round_half_even_def decimal.simps
      digit_char_def Let_def estado_texto_def)

subsection \<open>The posture state in the running program\<close>

lemma LeerAcelerometro_iter_posture:
  assumes "LeerAcelerometro_iter hz inp (l, g) = Inr (l', g')"
  shows "posture_state g' = posture_state g"
  using assms
  by (auto simp: LeerAcelerometro_iter_def Let_def split: if_splits)

lemma ProcesarPostura_iter_posture:
  assumes "posture_state g \<in> {0, 1, 2}"
  shows "posture_state (ProcesarPostura_iter g) \<in> {0, 1, 2}"
  using assms by (auto simp: ProcesarPostura_iter_def Let_def)

lemma reachable_posture_state:
  "reachable hz s \<Longrightarrow> posture_state (shared s) \<in> {0, 1, 2}"
proof (induction rule: reachable.induct)
  case (start t0)
  show ?case by (simp add: globals_init_def)
next
  case (sample s inp l g)
  then show ?case
    using LeerAcelerometro_iter_posture [of hz inp "sampler s" "shared s" l g] by simp
next
  case (classify s)
  then show ?case
    using ProcesarPostura_iter_posture [of "shared s"] by simp
next
  case (indicate s)
  then show ?case by simp
next
  case (send s)
  then show ?case by simp
qed

text \<open>
  A run of the program that reaches the alert: start, the four calibrating passes and
  the tilted pass of the sampler, five passes of the classifier (the state goes 0, 0,
  1, 1, 2), one of the indicator task and one of the telemetry task.
\<close>

lemma reachable_run:
  "reachable hz s \<Longrightarrow> LeerAcelerometro_run hz inps (sampler s, shared s) = Inr (l, g) \<Longrightarrow>
   reachable hz (s\<lparr>sampler := l, shared := g\<rparr>)"
proof (induction inps arbitrary: s)
  case Nil
  then show ?case by auto
next
  case (Cons inp inps)
  from Cons.prems(2) obtain l1 g1 where
    it: "LeerAcelerometro_iter hz inp (sampler s, shared s) = Inr (l1, g1)"
    and rest: "LeerAcelerometro_run hz inps (l1, g1) = Inr (l, g)"
    by (auto split: sum.splits)
  from reachable.sample [OF Cons.prems(1) it]
  have r1: "reachable hz (s\<lparr>sampler := l1, shared := g1\<rparr>)" .
  from Cons.IH [OF r1] rest show ?case by simp
qed

lemma tilt_run:
  "LeerAcelerometro_run 1 (four_passes @ [tilt_pass]) (LeerAcelerometro_init 10, globals_init)
     = Inr (alert_locals, tilted_globals)"
  by (simp add: four_passes_def tilt_pass_def LeerAcelerometro_iter_def LeerAcelerometro_init_def
      globals_init_def pdMS_TO_TICKS_def TIEMPO_CALIBRACION_def FiltroSuavizado_def Let_def
      CalcularAnguloDesviacion_def alert_locals_def tilted_globals_def word_le_nat_alt)

lemma tilt_over: "\<bar>pi / 2 * (180 / 3.14159)\<bar> > UMBRAL_INCLINACION"
proof -
  have "12 < 2 / 2 * (180 / 3.14159 :: real)" by simp
  also have "\<dots> \<le> pi / 2 * (180 / 3.14159)"
    using pi_ge_two by (intro mult_right_mono divide_right_mono) simp_all
  finally show ?thesis by (simp add: UMBRAL_INCLINACION_def)
qed

lemma ProcesarPostura_iter_tilted:
  "ProcesarPostura_iter (tilted_globals\<lparr>bad_posture_time := t, posture_state := s\<rparr>) =
     tilted_globals\<lparr>bad_posture_time := t + 1000,
        posture_state := (if 5000 \<le> t + 1000 then 2 else if 3000 \<le> t + 1000 then 1 else s)\<rparr>"
  using tilt_over
  by (simp add: ProcesarPostura_iter_def tilted_globals_def Let_def
       PERIODO_MUESTREO_AC_def TIEMPO_ALERTA_def TIEMPO_ADVERTENCIA_def)

lemma alert_scene_reachable: "reachable 1 alert_scene"
proof -
  let ?s0 = "\<lparr>sampler = LeerAcelerometro_init 10, shared = globals_init,
               driver_calls = [], ble_sent = []\<rparr>"
  let ?g = "\<lambda>t s. tilted_globals\<lparr>bad_posture_time := t, posture_state := s\<rparr>"
  have "reachable 1 ?s0" by (rule reachable.start)
  from reachable_run [OF this, of "four_passes @ [tilt_pass]" alert_locals tilted_globals] tilt_run
  have "reachable 1 \<lparr>sampler = alert_locals, shared = ?g 0 0, driver_calls = [], ble_sent = []\<rparr>"
    by (simp add: tilted_globals_def)
  from reachable.classify [OF this]
  have "reachable 1 \<lparr>sampler = alert_locals, shared = ?g 1000 0, driver_calls = [], ble_sent = []\<rparr>"
    by (simp add: ProcesarPostura_iter_tilted)
  from reachable.classify [OF this]
  have "reachable 1 \<lparr>sampler = alert_locals, shared = ?g 2000 0, driver_calls = [], ble_sent = []\<rparr>"
    by (simp add: ProcesarPostura_iter_tilted)
  from reachable.classify [OF this]
  have "reachable 1 \<lparr>sampler = alert_locals, shared = ?g 3000 1, driver_calls = [], ble_sent = []\<rparr>"
    by (simp add: ProcesarPostura_iter_tilted)
  from reachable.classify [OF this]
  have "reachable 1 \<lparr>sampler = alert_locals, shared = ?g 4000 1, driver_calls = [], ble_sent = []\<rparr>"
    by (simp add: ProcesarPostura_iter_tilted)
  from reachable.classify [OF this]
  have "reachable 1 \<lparr>sampler = alert_locals, shared = ?g 5000 2, driver_calls = [], ble_sent = []\<rparr>"
    by (simp add: ProcesarPostura_iter_tilted)
  from reachable.indicate [OF this]
  have "reachable 1 \<lparr>sampler = alert_locals, shared = ?g 5000 2,
      driver_calls = [LedOff LED_1, LedOff LED_2, LedOn LED_3, BuzzerOn], ble_sent = []\<rparr>"
    by (simp add: ActualizarIndicadores_iter_def tilted_globals_def)
  from reachable.send [OF this]
  show ?thesis
    by (simp add: alert_scene_def)
qed

text \<open>
  C10. In every state that the four tasks can reach, pass by pass in any order,
  \<open>posture_state\<close> is 0, 1 or 2: it starts at 0 and the classifier, its only writer,
  stores 0, 1 or 2. So the next pass of the indicator task does not take its default
  branch (it makes driver calls) and the next pass of the telemetry task does not
  choose the label \<open>Desconocido\<close>.
\<close>

theorem default_branches_unreachable:
  assumes "reachable hz s"
  shows "posture_state (shared s) \<in> {0, 1, 2} \<and>
         ActualizarIndicadores_iter (posture_state (shared s)) \<noteq> [] \<and>
         estado_texto (posture_state (shared s)) \<noteq> ''Desconocido''"
proof -
  from reachable_posture_state [OF assms]
  have "posture_state (shared s) = 0 \<or> posture_state (shared s) = 1 \<or> posture_state (shared s) = 2"
    by simp
  then show ?thesis
    by (auto simp: ActualizarIndicadores_iter_def estado_texto_def)
qed

theorem default_branches_unreachable_witness:
  "reachable 1 alert_scene \<and>
   posture_state (shared alert_scene) = 2 \<and>
   driver_calls alert_scene = [LedOff LED_1, LedOff LED_2, LedOn LED_3, BuzzerOn] \<and>
   posture_state (shared alert_scene) \<in> {0, 1, 2} \<and>
   ActualizarIndicadores_iter (posture_state (shared alert_scene)) \<noteq> [] \<and>
   estado_texto (posture_state (shared alert_scene)) \<noteq> ''Desconocido''"
proof -
  have r: "reachable 1 alert_scene"
    by (rule alert_scene_reachable)
  have s: "posture_state (shared alert_scene) = 2"
    and d: "driver_calls alert_scene = [LedOff LED_1, LedOff LED_2, LedOn LED_3, BuzzerOn]"
    by (simp_all add: alert_scene_def)
  from default_branches_unreachable [OF r] r s d show ?thesis by blast
qed

end
